theory Spec2Isabelle
  imports Complex_Main
begin

section \<open>The slide-deck generator \<open>create_presentation.py\<close>\<close>

text \<open>
  The script builds a fixed deck with the python-pptx library: three helpers
  (\<open>create_title_slide\<close>, \<open>create_content_slide\<close>, \<open>create_table_slide\<close>) each
  append one slide to a presentation object, and \<open>main\<close> calls them fifteen times,
  saves the presentation and prints a summary.

  The helpers and \<open>main\<close> are translated from the script. The objects of the
  library they act on (presentation, slide, placeholder, text frame, paragraph, run,
  table, cell) are records, and each library call the script makes is a function on
  them that returns \<open>Inl\<close> of an error where the library raises. Python mutates the
  objects in place; here every function returns the updated object.
\<close>

subsection \<open>Errors\<close>

datatype error =
  IndexError | KeyError | AttributeError | TypeError | ValueError
  | ZeroDivisionError | OSError

subsection \<open>Lengths and colours\<close>

text \<open>
  \<open>Inches(x)\<close>, \<open>Pt(n)\<close> and \<open>RGBColor(r, g, b)\<close> are kept as the script writes
  them. The library converts a length to an integer number of EMU in floating point;
  that conversion is not part of the model, and the decimal literals of the script are
  exact rationals here.
\<close>

datatype length = Emu int | Inches rat | Pt int

datatype rgb = RGBColor nat nat nat

subsection \<open>Text: runs, paragraphs, text frames\<close>

record font =
  font_bold :: "bool option"
  font_color :: "rgb option"
  font_size :: "length option"

record run =
  run_text :: string
  run_font :: font

record text_paragraph =
  runs :: "run list"
  level :: nat

type_synonym text_frame = "text_paragraph list"

definition new_font :: font where
  "new_font = \<lparr>font_bold = None, font_color = None, font_size = None\<rparr>"

definition new_run :: "string \<Rightarrow> run" where
  "new_run s = \<lparr>run_text = s, run_font = new_font\<rparr>"

text \<open>
  Assigning a text adds one run that holds it; the library adds no run for the empty
  string. (It also turns line-feed and vertical-tab characters into line breaks; no
  text of the script has one, and the model keeps the text in one run.)
\<close>

definition text_runs :: "string \<Rightarrow> run list" where
  "text_runs s = (if s = [] then [] else [new_run s])"

definition empty_paragraph :: text_paragraph where
  "empty_paragraph = \<lparr>runs = [], level = 0\<rparr>"

text \<open>The text frame of a new placeholder or table cell: one empty paragraph.\<close>

definition new_text_frame :: text_frame where
  "new_text_frame = [empty_paragraph]"

text \<open>\<open>shape.text = s\<close> and \<open>cell.text = s\<close>: the frame becomes one paragraph with the text.\<close>

definition set_frame_text :: "string \<Rightarrow> text_frame \<Rightarrow> text_frame" where
  "set_frame_text s tf = [\<lparr>runs = text_runs s, level = 0\<rparr>]"

text \<open>
  \<open>tf.clear()\<close>: all paragraphs but the first are removed and the first loses its
  runs, keeping its properties.
\<close>

definition clear :: "text_frame \<Rightarrow> error + text_frame" where
  "clear tf = (case tf of [] \<Rightarrow> Inl IndexError | p # _ \<Rightarrow> Inr [p\<lparr>runs := []\<rparr>])"

text \<open>\<open>tf.add_paragraph()\<close>: a new empty paragraph at the end.\<close>

definition add_paragraph :: "text_frame \<Rightarrow> text_frame" where
  "add_paragraph tf = tf @ [empty_paragraph]"

text \<open>\<open>p.text = s\<close>: the runs of the paragraph are replaced.\<close>

definition set_paragraph_text :: "string \<Rightarrow> text_paragraph \<Rightarrow> text_paragraph" where
  "set_paragraph_text s p = p\<lparr>runs := text_runs s\<rparr>"

text \<open>\<open>p.level = l\<close>: the library accepts the indent levels 0 to 8 and raises ValueError otherwise.\<close>

definition set_paragraph_level :: "int \<Rightarrow> text_paragraph \<Rightarrow> error + text_paragraph" where
  "set_paragraph_level l p =
     (if 0 \<le> l \<and> l \<le> 8 then Inr (p\<lparr>level := nat l\<rparr>) else Inl ValueError)"

text \<open>\<open>p.text\<close> and \<open>tf.text\<close> read back.\<close>

definition paragraph_text :: "text_paragraph \<Rightarrow> string" where
  "paragraph_text p = concat (map run_text (runs p))"

definition frame_texts :: "text_frame \<Rightarrow> string list" where
  "frame_texts tf = map paragraph_text tf"

subsection \<open>Tables\<close>

text \<open>
  A new cell has no fill of its own (\<open>FillNone\<close>: whatever the table style gives);
  \<open>cell.fill.solid()\<close> makes the fill solid with no colour yet, and
  \<open>cell.fill.fore_color.rgb = c\<close> sets the colour of a solid fill and raises TypeError
  on a fill that is not solid.
\<close>

datatype fill_format = FillNone | Solid "rgb option"

record cell =
  cell_frame :: text_frame
  fill :: fill_format

record table_row =
  cells :: "cell list"

record table =
  frame_left :: length
  frame_top :: length
  frame_width :: length
  frame_height :: length
  columns :: "length option list"
  rows :: "table_row list"

definition new_cell :: cell where
  "new_cell = \<lparr>cell_frame = new_text_frame, fill = FillNone\<rparr>"

definition solid :: "cell \<Rightarrow> cell" where
  "solid c = c\<lparr>fill := Solid None\<rparr>"

definition set_fore_color :: "rgb \<Rightarrow> cell \<Rightarrow> error + cell" where
  "set_fore_color col c =
     (case fill c of FillNone \<Rightarrow> Inl TypeError | Solid _ \<Rightarrow> Inr (c\<lparr>fill := Solid (Some col)\<rparr>))"

text \<open>
  \<open>shapes.add_table(rows, cols, left, top, width, height)\<close>: the library divides the
  height by the number of rows and the width by the number of columns (ZeroDivisionError
  when one of them is 0) and makes \<open>rows\<close> rows of \<open>cols\<close> new cells. A column
  width of \<open>None\<close> is the share of the table width the library computed.
\<close>

definition add_table :: "nat \<Rightarrow> nat \<Rightarrow> length \<Rightarrow> length \<Rightarrow> length \<Rightarrow> length \<Rightarrow> error + table" where
  "add_table n_rows n_cols x y cx cy =
     (if n_rows = 0 \<or> n_cols = 0 then Inl ZeroDivisionError
      else Inr \<lparr>frame_left = x, frame_top = y, frame_width = cx, frame_height = cy,
                columns = replicate n_cols None,
                rows = replicate n_rows \<lparr>cells = replicate n_cols new_cell\<rparr>\<rparr>)"

subsection \<open>Slides and the presentation\<close>

text \<open>
  A slide has the index of its layout, its placeholders (by placeholder index, each
  with its text frame) and the tables added to it. \<open>slide_layouts\<close> is the list of
  layouts of the library's default template, each given by the placeholder indexes a
  new slide gets from it: 0 Title Slide, 1 Title and Content, 2 Section Header,
  3 Two Content, 4 Comparison, 5 Title Only, 6 Blank, 7 Content with Caption,
  8 Picture with Caption, 9 Title and Vertical Text, 10 Vertical Title and Text.
\<close>

record slide =
  layout :: nat
  placeholders :: "(nat \<times> text_frame) list"
  tables :: "table list"

record presentation =
  slide_width :: length
  slide_height :: length
  slides :: "slide list"

definition slide_layouts :: "nat list list" where
  "slide_layouts =
     [[0, 1], [0, 1], [0, 1], [0, 1, 2], [0, 1, 2, 3, 4], [0], [], [0, 1, 2], [0, 1, 2],
      [0, 1], [0, 1]]"

text \<open>\<open>Presentation()\<close>: the default template, 10 by 7.5 inches, with no slide.\<close>

definition Presentation :: presentation where
  "Presentation = \<lparr>slide_width = Emu 9144000, slide_height = Emu 6858000, slides = []\<rparr>"

text \<open>
  \<open>prs.slides.add_slide(prs.slide_layouts[k])\<close>: the new slide is appended to the
  presentation at once, and the script then changes it through the reference it got.
  The reference is the position of the slide in \<open>slides\<close>.
\<close>

definition new_slide :: "nat \<Rightarrow> slide" where
  "new_slide k =
     \<lparr>layout = k,
      placeholders = map (\<lambda>idx. (idx, new_text_frame)) (slide_layouts ! k),
      tables = []\<rparr>"

definition add_slide :: "presentation \<Rightarrow> nat \<Rightarrow> error + (nat \<times> presentation)" where
  "add_slide prs k =
     (if k < length slide_layouts
      then Inr (length (slides prs), prs\<lparr>slides := slides prs @ [new_slide k]\<rparr>)
      else Inl IndexError)"

text \<open>A change of the slide behind a reference.\<close>

definition update_slide :: "nat \<Rightarrow> (slide \<Rightarrow> error + slide) \<Rightarrow> presentation \<Rightarrow> error + presentation" where
  "update_slide r f prs =
     (if r < length (slides prs)
      then (case f (slides prs ! r) of
              Inl e \<Rightarrow> Inl e
            | Inr s \<Rightarrow> Inr (prs\<lparr>slides := (slides prs)[r := s]\<rparr>))
      else Inl IndexError)"

fun update_placeholder :: "nat \<Rightarrow> text_frame \<Rightarrow> (nat \<times> text_frame) list \<Rightarrow> (nat \<times> text_frame) list" where
  "update_placeholder idx tf [] = []"
| "update_placeholder idx tf ((k, v) # phs) =
     (if k = idx then (k, tf) # phs else (k, v) # update_placeholder idx tf phs)"

text \<open>
  \<open>slide.shapes.title.text = s\<close>: \<open>shapes.title\<close> is the placeholder of index 0, or
  \<open>None\<close> when the slide has none, and then the assignment raises AttributeError.
\<close>

definition set_title_text :: "string \<Rightarrow> slide \<Rightarrow> error + slide" where
  "set_title_text s sl =
     (case map_of (placeholders sl) 0 of
        None \<Rightarrow> Inl AttributeError
      | Some tf \<Rightarrow>
          Inr (sl\<lparr>placeholders := update_placeholder 0 (set_frame_text s tf) (placeholders sl)\<rparr>))"

text \<open>\<open>slide.placeholders[idx]\<close> raises KeyError when the slide has no such placeholder.\<close>

definition placeholder :: "slide \<Rightarrow> nat \<Rightarrow> error + text_frame" where
  "placeholder sl idx = (case map_of (placeholders sl) idx of None \<Rightarrow> Inl KeyError | Some tf \<Rightarrow> Inr tf)"

definition set_placeholder_text :: "nat \<Rightarrow> string \<Rightarrow> slide \<Rightarrow> error + slide" where
  "set_placeholder_text idx s sl =
     (case placeholder sl idx of
        Inl e \<Rightarrow> Inl e
      | Inr tf \<Rightarrow>
          Inr (sl\<lparr>placeholders := update_placeholder idx (set_frame_text s tf) (placeholders sl)\<rparr>))"

subsection \<open>\<open>create_title_slide\<close>\<close>

definition create_title_slide :: "presentation \<Rightarrow> string \<Rightarrow> string \<Rightarrow> error + (nat \<times> presentation)" where
  "create_title_slide prs title subtitle =
     (case add_slide prs 0 of
        Inl e \<Rightarrow> Inl e
      | Inr (sl, prs1) \<Rightarrow>
          (case update_slide sl (set_title_text title) prs1 of
             Inl e \<Rightarrow> Inl e
           | Inr prs2 \<Rightarrow>
               (case update_slide sl (set_placeholder_text 1 subtitle) prs2 of
                  Inl e \<Rightarrow> Inl e
                | Inr prs3 \<Rightarrow> Inr (sl, prs3))))"

subsection \<open>\<open>create_content_slide\<close>\<close>

text \<open>
  The loop over \<open>enumerate(bullet_points)\<close>: \<open>p\<close> is the paragraph
  \<open>tf.paragraphs[0]\<close> for the first pair and the paragraph \<open>tf.add_paragraph()\<close> put
  at the end for every later one; it gets the text, then the level.
\<close>

fun fill_paragraphs :: "nat \<Rightarrow> (int \<times> string) list \<Rightarrow> text_frame \<Rightarrow> error + text_frame" where
  "fill_paragraphs i [] tf = Inr tf"
| "fill_paragraphs i ((lvl, txt) # bps) tf =
     (if i = 0 then
        (case tf of
           [] \<Rightarrow> Inl IndexError
         | p # ps \<Rightarrow>
             (case set_paragraph_level lvl (set_paragraph_text txt p) of
                Inl e \<Rightarrow> Inl e
              | Inr p' \<Rightarrow> fill_paragraphs (Suc i) bps (p' # ps)))
      else
        (let tf1 = add_paragraph tf in
         case set_paragraph_level lvl (set_paragraph_text txt (last tf1)) of
           Inl e \<Rightarrow> Inl e
         | Inr p' \<Rightarrow> fill_paragraphs (Suc i) bps (butlast tf1 @ [p'])))"

text \<open>
  The body of \<open>if bullet_points:\<close> on the slide: the text frame of placeholder 1 is
  cleared and filled.
\<close>

definition set_bullets :: "(int \<times> string) list \<Rightarrow> slide \<Rightarrow> error + slide" where
  "set_bullets bps sl =
     (case placeholder sl 1 of
        Inl e \<Rightarrow> Inl e
      | Inr tf \<Rightarrow>
          (case clear tf of
             Inl e \<Rightarrow> Inl e
           | Inr tf0 \<Rightarrow>
               (case fill_paragraphs 0 bps tf0 of
                  Inl e \<Rightarrow> Inl e
                | Inr tf1 \<Rightarrow> Inr (sl\<lparr>placeholders := update_placeholder 1 tf1 (placeholders sl)\<rparr>))))"

text \<open>\<open>bullet_points\<close> is \<open>None\<close> or a list; both \<open>None\<close> and the empty list are false in \<open>if\<close>.\<close>

definition create_content_slide ::
  "presentation \<Rightarrow> string \<Rightarrow> (int \<times> string) list option \<Rightarrow> error + (nat \<times> presentation)" where
  "create_content_slide prs title bullet_points =
     (case add_slide prs 1 of
        Inl e \<Rightarrow> Inl e
      | Inr (sl, prs1) \<Rightarrow>
          (case update_slide sl (set_title_text title) prs1 of
             Inl e \<Rightarrow> Inl e
           | Inr prs2 \<Rightarrow>
               (case bullet_points of
                  None \<Rightarrow> Inr (sl, prs2)
                | Some [] \<Rightarrow> Inr (sl, prs2)
                | Some bps \<Rightarrow>
                    (case update_slide sl (set_bullets bps) prs2 of
                       Inl e \<Rightarrow> Inl e
                     | Inr prs3 \<Rightarrow> Inr (sl, prs3)))))"

subsection \<open>\<open>create_table_slide\<close>\<close>

text \<open>
  The loop over \<open>enumerate(col_widths)\<close>; \<open>table.columns[i]\<close> raises IndexError
  when the table has no column \<open>i\<close>.
\<close>

fun set_col_widths :: "nat \<Rightarrow> rat list \<Rightarrow> table \<Rightarrow> error + table" where
  "set_col_widths i [] tb = Inr tb"
| "set_col_widths i (w # ws) tb =
     (if i < length (columns tb)
      then set_col_widths (Suc i) ws (tb\<lparr>columns := (columns tb)[i := Some (Inches w)]\<rparr>)
      else Inl IndexError)"

text \<open>The two inner loops over the runs of every paragraph of a cell.\<close>

definition map_runs :: "(run \<Rightarrow> run) \<Rightarrow> text_frame \<Rightarrow> text_frame" where
  "map_runs f tf = map (\<lambda>p. p\<lparr>runs := map f (runs p)\<rparr>) tf"

definition header_run :: "run \<Rightarrow> run" where
  "header_run r =
     r\<lparr>run_font := (run_font r)\<lparr>font_bold := Some True,
                                  font_color := Some (RGBColor 255 255 255),
                                  font_size := Some (Pt 12)\<rparr>\<rparr>"

definition data_run :: "run \<Rightarrow> run" where
  "data_run r = r\<lparr>run_font := (run_font r)\<lparr>font_size := Some (Pt 11)\<rparr>\<rparr>"

text \<open>
  The body of the inner loop on the cell it fetched: the text is set
  (\<open>str(cell_text)\<close> of a string is the string), then the cell is formatted as a
  header cell when \<open>i == 0\<close> and as a data cell otherwise.
\<close>

definition write_cell :: "nat \<Rightarrow> string \<Rightarrow> cell \<Rightarrow> error + cell" where
  "write_cell i cell_text c =
     (let c1 = c\<lparr>cell_frame := set_frame_text cell_text (cell_frame c)\<rparr> in
      if i = 0 then
        (case set_fore_color (RGBColor 68 114 196) (solid c1) of
           Inl e \<Rightarrow> Inl e
         | Inr c2 \<Rightarrow> Inr (c2\<lparr>cell_frame := map_runs header_run (cell_frame c2)\<rparr>))
      else Inr (c1\<lparr>cell_frame := map_runs data_run (cell_frame c1)\<rparr>))"

text \<open>
  \<open>cell = table.rows[i].cells[j]\<close> and the loop body; both index accesses raise
  IndexError out of range.
\<close>

definition set_cell :: "nat \<Rightarrow> nat \<Rightarrow> string \<Rightarrow> table \<Rightarrow> error + table" where
  "set_cell i j cell_text tb =
     (if i < length (rows tb) then
        (let r = rows tb ! i in
         if j < length (cells r) then
           (case write_cell i cell_text (cells r ! j) of
              Inl e \<Rightarrow> Inl e
            | Inr c \<Rightarrow> Inr (tb\<lparr>rows := (rows tb)[i := r\<lparr>cells := (cells r)[j := c]\<rparr>]\<rparr>))
         else Inl IndexError)
      else Inl IndexError)"

text \<open>The inner loop over \<open>enumerate(row)\<close> and the outer loop over \<open>enumerate(data)\<close>.\<close>

fun fill_row :: "nat \<Rightarrow> nat \<Rightarrow> string list \<Rightarrow> table \<Rightarrow> error + table" where
  "fill_row i j [] tb = Inr tb"
| "fill_row i j (cell_text # row) tb =
     (case set_cell i j cell_text tb of
        Inl e \<Rightarrow> Inl e
      | Inr tb' \<Rightarrow> fill_row i (Suc j) row tb')"

fun fill_table :: "nat \<Rightarrow> string list list \<Rightarrow> table \<Rightarrow> error + table" where
  "fill_table i [] tb = Inr tb"
| "fill_table i (row # data) tb =
     (case fill_row i 0 row tb of
        Inl e \<Rightarrow> Inl e
      | Inr tb' \<Rightarrow> fill_table (Suc i) data tb')"

text \<open>
  The function from \<open>rows = len(data)\<close> on, on the slide: \<open>data[0]\<close> raises
  IndexError on the empty list; the table is added, its column widths are set when
  \<open>col_widths\<close> is neither \<open>None\<close> nor empty, and it is filled.
\<close>

definition set_table :: "string list list \<Rightarrow> rat list option \<Rightarrow> slide \<Rightarrow> error + slide" where
  "set_table data col_widths sl =
     (case data of
        [] \<Rightarrow> Inl IndexError
      | row0 # _ \<Rightarrow>
          (case add_table (length data) (length row0) (Inches 1) (Inches 2) (Inches 8)
                  (Inches (8 / 10 * of_nat (length data))) of
             Inl e \<Rightarrow> Inl e
           | Inr tb \<Rightarrow>
               (case set_col_widths 0 (case col_widths of None \<Rightarrow> [] | Some ws \<Rightarrow> ws) tb of
                  Inl e \<Rightarrow> Inl e
                | Inr tb1 \<Rightarrow>
                    (case fill_table 0 data tb1 of
                       Inl e \<Rightarrow> Inl e
                     | Inr tb2 \<Rightarrow> Inr (sl\<lparr>tables := tables sl @ [tb2]\<rparr>)))))"

definition create_table_slide ::
  "presentation \<Rightarrow> string \<Rightarrow> string list list \<Rightarrow> rat list option \<Rightarrow> error + (nat \<times> presentation)" where
  "create_table_slide prs title data col_widths =
     (case add_slide prs 5 of
        Inl e \<Rightarrow> Inl e
      | Inr (sl, prs1) \<Rightarrow>
          (case update_slide sl (set_title_text title) prs1 of
             Inl e \<Rightarrow> Inl e
           | Inr prs2 \<Rightarrow>
               (case update_slide sl (set_table data col_widths) prs2 of
                  Inl e \<Rightarrow> Inl e
                | Inr prs3 \<Rightarrow> Inr (sl, prs3))))"

subsection \<open>Saving and printing\<close>

text \<open>
  The world outside the script: a clock, the files by path, and which paths can be
  written. \<open>prs.save(path)\<close> opens the path for writing, which replaces a file that is
  there, and raises OSError when the path cannot be written. A saved file is the
  presentation with the time it was written at.
\<close>

record saved_file =
  written_at :: nat
  content :: presentation

record world =
  clock :: nat
  writable :: "string \<Rightarrow> bool"
  files :: "string \<Rightarrow> saved_file option"

definition save :: "presentation \<Rightarrow> string \<Rightarrow> world \<Rightarrow> error + world" where
  "save prs path w =
     (if writable w path
      then Inr (w\<lparr>files := (files w)(path \<mapsto> \<lparr>written_at = clock w, content = prs\<rparr>)\<rparr>)
      else Inl OSError)"

text \<open>\<open>str(n)\<close> of a natural number, for the f-string that prints the slide count.\<close>

function str_nat :: "nat \<Rightarrow> string" where
  "str_nat n =
     (if n < 10 then [char_of (48 + n)]
      else str_nat (n div 10) @ [char_of (48 + n mod 10)])"
  by pat_completeness auto
termination
  by (relation "measure id") auto

declare str_nat.simps [simp del]

subsection \<open>\<open>main\<close>\<close>

text \<open>
  \<open>main\<close> is a straight sequence of calls of the three helpers on one presentation,
  each result dropped. A call is kept as data, the sequence as the list of the calls
  in the order of the script, and \<open>run_calls\<close> makes them one after the other; an
  error of a call ends the sequence, as the exception ends \<open>main\<close>.
\<close>

datatype call =
  TitleCall string string
  | ContentCall string "(int \<times> string) list option"
  | TableCall string "string list list" "rat list option"

definition exec_call :: "presentation \<Rightarrow> call \<Rightarrow> error + presentation" where
  "exec_call prs c =
     (case c of
        TitleCall title subtitle \<Rightarrow> map_sum id snd (create_title_slide prs title subtitle)
      | ContentCall title bullet_points \<Rightarrow> map_sum id snd (create_content_slide prs title bullet_points)
      | TableCall title data col_widths \<Rightarrow> map_sum id snd (create_table_slide prs title data col_widths))"

fun run_calls :: "presentation \<Rightarrow> call list \<Rightarrow> error + presentation" where
  "run_calls prs [] = Inr prs"
| "run_calls prs (c # cs) =
     (case exec_call prs c of
        Inl e \<Rightarrow> Inl e
      | Inr prs' \<Rightarrow> run_calls prs' cs)"

definition main_calls :: "call list" where
  "main_calls =
     [TitleCall
        ''Data Mining: Betrugserkennung''
        ''Klassifikation von E-Commerce Bestellungen'',
      ContentCall
        ''Agenda''
        (Some
          [(0, ''1. Einf'' @ [CHR 0xC3, CHR 0xBC] @ ''hrung und Problemstellung''),
           (0, ''2. Datenanalyse und -vorbereitung (CRISP-DM)''),
           (0, ''3. Attributanalyse und Feature Engineering''),
           (0, ''4. Modellauswahl und Training''),
           (0, ''5. Modellbewertung und Optimierung''),
           (0, ''6. Vorhersage und Fazit'')]),
      ContentCall
        (''1. Einf'' @ [CHR 0xC3, CHR 0xBC] @ ''hrung und Problemstellung'')
        (Some
          [(0, ''Szenario: Betrugserkennung im Online-Handel''),
           (1, ''Herausforderung: Ware gegen Geld nicht direkt umsetzbar''),
           (1, ''Risiko: Bestellungen ohne Zahlungseingang''),
           (0, ''Data Mining Aufgabe:''),
           (1, ''Typ: Klassifikationsproblem ('' @ [CHR 0xC3, CHR 0x9C] @ ''berwachtes Lernen)''),
           (1, ''Zielattribut: TARGET_BETRUG (diskret: ja/nein)''),
           (0, ''Datensatz: 30.000 E-Commerce Bestellungen''),
           (1, ''Training: 24.000 Datens'' @ [CHR 0xC3, CHR 0xA4] @ ''tze (80% - Holdout-Methode)''),
           (1, ''Test: 6.000 Datens'' @ [CHR 0xC3, CHR 0xA4] @ ''tze (20%)''),
           (1, ''Klassifizierung: 20.000 neue Bestellungen'')]),
      ContentCall
        ''2. Datenanalyse (CRISP-DM: Data Understanding)''
        (Some
          [(0, ''Explorative Datenanalyse der Trainingsdaten:''),
           (1, ''30.000 Bestellungen mit 43 Attributen''),
           (1, ''Zielattribut TARGET_BETRUG analysiert''),
           (0, ''Zentrale Erkenntnis: Stark unbalancierte Klassen''),
           (1, ''Nur 1.746 Betrugsf'' @ [CHR 0xC3, CHR 0xA4] @ ''lle (5,82%)''),
           (1, ''28.254 legitime Bestellungen (94,18%)''),
           (0, ''Implikation f'' @ [CHR 0xC3, CHR 0xBC] @ ''r Data Mining:''),
           (1, [CHR 0xE2, CHR 0x9D, CHR 0x8C] @ '' Accuracy allein als G'' @ [CHR 0xC3, CHR 0xBC] @ ''tema'' @ [CHR 0xC3, CHR 0x9F] @ '' ungeeignet''),
           (1, [CHR 0xE2, CHR 0x9C, CHR 0x93] @ '' Precision & Recall sind entscheidend''),
           (1, ''Modell k'' @ [CHR 0xC3, CHR 0xB6] @ ''nnte '' @ [CHR 0x22] @ ''immer nein'' @ [CHR 0x22] @ '' vorhersagen (94% Accuracy!)''),
           (1, [CHR 0xE2, CHR 0x86, CHR 0x92] @ '' Betrugsf'' @ [CHR 0xC3, CHR 0xA4] @ ''lle w'' @ [CHR 0xC3, CHR 0xBC] @ ''rden nicht erkannt werden'')]),
      ContentCall
        ''3. Attributanalyse & Feature Engineering (Data Preparation)''
        (Some
          [(0, ''Analyse der Artikelnummer-Attribute (ANUMMER_01 bis ANUMMER_10):''),
           (1, ''Repr'' @ [CHR 0xC3, CHR 0xA4] @ ''sentieren bestellte Artikel (Artikelnummern)''),
           (1, ''Datentyp: Diskret (kategorisch)''),
           (0, ''Identifizierte Probleme:''),
           (1, [CHR 0xE2, CHR 0x9D, CHR 0x8C] @ '' Limitation: Maximal 10 Artikel erfassbar''),
           (1, [CHR 0xE2, CHR 0x9D, CHR 0x8C] @ '' Bei >10 Artikeln: Datenverlust''),
           (1, [CHR 0xE2, CHR 0x9D, CHR 0x8C] @ '' ANUMMER_02 bis ANUMMER_10 gr'' @ [CHR 0xC3, CHR 0xB6, CHR 0xC3, CHR 0x9F] @ ''tenteils NULL''),
           (1, [CHR 0xE2, CHR 0x9D, CHR 0x8C] @ '' Hohe Dimensionalit'' @ [CHR 0xC3, CHR 0xA4] @ ''t mit vielen Leereintr'' @ [CHR 0xC3, CHR 0xA4] @ ''gen''),
           (0, ''Feature Engineering - Optimierungsansatz:''),
           (1, [CHR 0xE2, CHR 0x9C, CHR 0x93] @ '' Zusammenf'' @ [CHR 0xC3, CHR 0xBC] @ ''hrung zu ANUMMER_LIST (aggregiert)''),
           (1, [CHR 0xE2, CHR 0x9C, CHR 0x93] @ '' Reduzierung der Dimensionalit'' @ [CHR 0xC3, CHR 0xA4] @ ''t (10'' @ [CHR 0xE2, CHR 0x86, CHR 0x92] @ ''1 Attribut)''),
           (1, [CHR 0xE2, CHR 0x9C, CHR 0x93] @ '' Bessere Datenqualit'' @ [CHR 0xC3, CHR 0xA4] @ ''t f'' @ [CHR 0xC3, CHR 0xBC] @ ''r ML-Algorithmen'')]),
      ContentCall
        ''4. Modellauswahl und Training (CRISP-DM: Modeling)''
        (Some
          [(0, ''Implementierung: KNIME Analytics Platform''),
           (0, ''Trainingsmethode: Holdout-Methode''),
           (1, ''80% Trainingsdaten (24.000 Datens'' @ [CHR 0xC3, CHR 0xA4] @ ''tze)''),
           (1, ''20% Testdaten (6.000 Datens'' @ [CHR 0xC3, CHR 0xA4] @ ''tze)''),
           (0, ''Drei Klassifikationsverfahren ('' @ [CHR 0xC3, CHR 0x9C] @ ''berwachtes Lernen):''),
           (1, ''1. Decision Tree (Entscheidungsbaum, Gini Index)''),
           (2, ''Trennscharfe Entscheidungsregeln''),
           (1, ''2. Logistic Regression (Logistische Regression)''),
           (2, ''Lineare Trennung der Klassen''),
           (1, ''3. Naive Bayes Classifier''),
           (2, ''Probabilistischer Ansatz, bedingte Wahrscheinlichkeiten'')]),
      ContentCall
        ''5. Modellbewertung (CRISP-DM: Evaluation)''
        (Some
          [(0, ''Bewertung mit Konfusionsmatrix:''),
           (1, ''True Positive (TP): Betrug korrekt als Betrug erkannt''),
           (1, ''True Negative (TN): Kein Betrug korrekt als legitim erkannt''),
           (1, ''False Positive (FP): Legitim f'' @ [CHR 0xC3, CHR 0xA4] @ ''lschlich als Betrug erkannt''),
           (1, ''False Negative (FN): Betrug f'' @ [CHR 0xC3, CHR 0xA4] @ ''lschlich als legitim erkannt''),
           (0, ''G'' @ [CHR 0xC3, CHR 0xBC] @ ''tekriterien:''),
           (1, ''Accuracy = (TP+TN) / Gesamt''),
           (2, ''Gesamtgenauigkeit aller Vorhersagen''),
           (1, ''Precision = TP / (TP+FP)''),
           (2, ''Wie viele Betrugsvorhersagen waren korrekt?''),
           (1, ''Recall = TP / (TP+FN)''),
           (2, ''Wie viele Betrugsf'' @ [CHR 0xC3, CHR 0xA4] @ ''lle wurden erkannt?'')]),
      TableCall
        ''5a. Decision Tree - Confusion Matrix''
        [[[], ''Predicted: nein'', ''Predicted: ja''],
         [''Actual: nein'', ''5466 (TN)'', ''193 (FP)''],
         [''Actual: ja'', ''300 (FN)'', ''36 (TP)'']]
        (Some [3.0, 2.5, 2.5]),
      ContentCall
        ''5a. Decision Tree - Metriken''
        (Some
          [(0, ''Berechnete G'' @ [CHR 0xC3, CHR 0xBC] @ ''tekriterien:''),
           (1, ''Accuracy: 91,78% = (5466+36) / 6000''),
           (1, ''Precision: 15,72% = 36 / (36+193)''),
           (1, ''Recall: 9,33% = 36 / (36+300)''),
           (0, ''Interpretation:''),
           (1, [CHR 0xE2, CHR 0x9C, CHR 0x93] @ '' Erkennt tats'' @ [CHR 0xC3, CHR 0xA4] @ ''chlich Betrugsf'' @ [CHR 0xC3, CHR 0xA4] @ ''lle (36 TP)''),
           (1, [CHR 0xE2, CHR 0x9C, CHR 0x93] @ '' Besser als '' @ [CHR 0x22] @ ''immer nein'' @ [CHR 0x22] @ '' Baseline''),
           (1, [CHR 0xE2, CHR 0x9A, CHR 0xA0] @ '' Hohe False-Positive Rate (193 Fehlalarme)''),
           (1, [CHR 0xE2, CHR 0x9A, CHR 0xA0] @ '' Niedriger Recall (300 FN, 89% nicht erkannt)''),
           (0, ''Bewertung: Einziges Modell mit relevantem Recall'')]),
      ContentCall
        ''5b. Logistic Regression - Ergebnisse''
        (Some
          [(0, ''Confusion Matrix:''),
           (1, ''TN: 5666, FP: 0, FN: 336, TP: 0''),
           (1, ''Alle Vorhersagen: '' @ [CHR 0x22] @ ''nein'' @ [CHR 0x22] @ '' (kein Betrug)''),
           (0, ''Berechnete Metriken:''),
           (1, ''Accuracy: 94,40% = 5666 / 6000''),
           (1, ''Precision: 0% (keine Betrugsvorhersagen)''),
           (1, ''Recall: 0% = 0 / 336 (alle Betrugsf'' @ [CHR 0xC3, CHR 0xA4] @ ''lle '' @ [CHR 0xC3, CHR 0xBC] @ ''bersehen)''),
           (0, [CHR 0xE2, CHR 0x9D, CHR 0x8C] @ '' Fazit: Modell unbrauchbar f'' @ [CHR 0xC3, CHR 0xBC] @ ''r Betrugserkennung''),
           (1, ''Paradox: Hohe Accuracy durch Class Imbalance''),
           (1, ''Modell hat aus Unbalance gelernt, immer '' @ [CHR 0x22] @ ''nein'' @ [CHR 0x22] @ '' zu sagen''),
           (1, ''Kein einziger Betrugsfall erkannt (0 TP)'')]),
      ContentCall
        ''5c. Naive Bayes - Ergebnisse''
        (Some
          [(0, ''Confusion Matrix:''),
           (1, ''TN: 5663, FP: 3, FN: 333, TP: 3''),
           (0, ''Berechnete Metriken:''),
           (1, ''Accuracy: 94,44% = (5663+3) / 6000''),
           (1, ''Precision: 50,00% = 3 / (3+3)''),
           (1, ''Recall: 0,89% = 3 / (3+333)''),
           (0, ''Bewertung:''),
           (1, [CHR 0xE2, CHR 0x9C, CHR 0x93] @ '' Hohe Precision bei Betrugsvorhersagen (50%)''),
           (1, [CHR 0xE2, CHR 0x9C, CHR 0x93] @ '' Sehr wenig Fehlalarme (nur 3 FP)''),
           (1, [CHR 0xE2, CHR 0x9D, CHR 0x8C] @ '' Extrem niedriger Recall (0,89%)''),
           (1, [CHR 0xE2, CHR 0x9D, CHR 0x8C] @ '' Erkennt fast keine Betrugsf'' @ [CHR 0xC3, CHR 0xA4] @ ''lle (nur 3 von 336)''),
           (0, ''Fazit: Zu konservativ, praktisch unbrauchbar'')]),
      TableCall
        ''5d. Vergleichende Modellbewertung''
        [[''Modell'', ''Accuracy'', ''Precision'', ''Recall'', ''TP'', ''Bewertung''],
         [''Decision Tree'', ''91,78%'', ''15,72%'', ''9,33%'', ''36'', [CHR 0xE2, CHR 0xAD, CHR 0x90] @ '' GEW'' @ [CHR 0xC3, CHR 0x84] @ ''HLT''],
         [''Logistic Regression'', ''94,40%'', ''0%'', ''0%'', ''0'', [CHR 0xE2, CHR 0x9D, CHR 0x8C] @ '' Unbrauchbar''],
         [''Naive Bayes'', ''94,44%'', ''50,00%'', ''0,89%'', ''3'', [CHR 0xE2, CHR 0x9A, CHR 0xA0] @ '' Zu konservativ'']]
        (Some [2.3, 1.3, 1.3, 1.3, 0.8, 2.0]),
      ContentCall
        (''5e. Ma'' @ [CHR 0xC3, CHR 0x9F] @ ''nahmen zur Ergebnisverbesserung'')
        (Some
          [(0, ''Hauptproblem: Class Imbalance (5,82% Betrug)''),
           (0, ''Resampling-Techniken:''),
           (1, ''Undersampling: Reduzierung der Mehrheitsklasse''),
           (2, ''Zuf'' @ [CHR 0xC3, CHR 0xA4] @ ''llige Auswahl von legitimen Bestellungen''),
           (1, ''SMOTE (Synthetic Minority Over-sampling Technique)''),
           (2, ''Synthetische Generierung zus'' @ [CHR 0xC3, CHR 0xA4] @ ''tzlicher Betrugsf'' @ [CHR 0xC3, CHR 0xA4] @ ''lle''),
           (0, ''Algorithmus-Optimierung:''),
           (1, ''Hyperparameter-Tuning (Complexity_Penalty, Minimum_Support)''),
           (1, ''Cost-Sensitive Learning (h'' @ [CHR 0xC3, CHR 0xB6] @ ''here Kosten f'' @ [CHR 0xC3, CHR 0xBC] @ ''r FN)''),
           (0, ''Weitere Ans'' @ [CHR 0xC3, CHR 0xA4] @ ''tze:''),
           (1, ''Ensemble-Methoden (Random Forest, XGBoost)''),
           (1, ''Feature Engineering (ANUMMER_LIST verwenden)'')]),
      ContentCall
        ''6. Vorhersage (CRISP-DM: Deployment)''
        (Some
          [(0, ''Gew'' @ [CHR 0xC3, CHR 0xA4] @ ''hltes Modell f'' @ [CHR 0xC3, CHR 0xBC] @ ''r Produktivbetrieb:''),
           (1, [CHR 0xE2, CHR 0x9C, CHR 0x93] @ '' Decision Tree (Entscheidungsbaum)''),
           (0, ''Begr'' @ [CHR 0xC3, CHR 0xBC] @ ''ndung der Auswahl:''),
           (1, ''Einziges Modell mit relevantem Recall (9,33%)''),
           (1, ''Erkennt tats'' @ [CHR 0xC3, CHR 0xA4] @ ''chlich Betrugsf'' @ [CHR 0xC3, CHR 0xA4] @ ''lle (36 TP)''),
           (1, ''Trade-off: Niedrigere Accuracy, aber Betrugserkennnung''),
           (0, ''Anwendung auf Klassifizierungsdaten:''),
           (1, ''20.000 neue Bestellungen klassifiziert''),
           (1, ''Datei: Klassifizierungsdaten-tree-predictions.csv''),
           (0, ''Kritische Einsch'' @ [CHR 0xC3, CHR 0xA4] @ ''tzung:''),
           (1, ''Performance noch verbesserungsw'' @ [CHR 0xC3, CHR 0xBC] @ ''rdig''),
           (1, ''Optimierungsma'' @ [CHR 0xC3, CHR 0x9F] @ ''nahmen empfohlen (Resampling, etc.)'')]),
      ContentCall
        ''Zusammenfassung und Ausblick''
        (Some
          [(0, ''Zentrale Erkenntnisse:''),
           (1, ''Class Imbalance gr'' @ [CHR 0xC3, CHR 0xB6, CHR 0xC3, CHR 0x9F] @ ''te Herausforderung bei Betrugserkennung''),
           (1, ''Accuracy irref'' @ [CHR 0xC3, CHR 0xBC] @ ''hrend bei unbalancierten Daten''),
           (1, ''Precision & Recall entscheidende G'' @ [CHR 0xC3, CHR 0xBC] @ ''tekriterien''),
           (1, ''CRISP-DM-Prozess systematisch durchgef'' @ [CHR 0xC3, CHR 0xBC] @ ''hrt''),
           (0, ''Durchgef'' @ [CHR 0xC3, CHR 0xBC] @ ''hrte Schritte:''),
           (1, [CHR 0xE2, CHR 0x9C, CHR 0x93] @ '' Data Understanding (Class Imbalance identifiziert)''),
           (1, [CHR 0xE2, CHR 0x9C, CHR 0x93] @ '' Data Preparation (ANUMMER Feature Engineering)''),
           (1, [CHR 0xE2, CHR 0x9C, CHR 0x93] @ '' Modeling (3 Klassifikationsverfahren trainiert)''),
           (1, [CHR 0xE2, CHR 0x9C, CHR 0x93] @ '' Evaluation (Konfusionsmatrix, Metriken)''),
           (1, [CHR 0xE2, CHR 0x9C, CHR 0x93] @ '' Deployment (Decision Tree f'' @ [CHR 0xC3, CHR 0xBC] @ ''r Vorhersage gew'' @ [CHR 0xC3, CHR 0xA4] @ ''hlt)''),
           (0, ''Vielen Dank f'' @ [CHR 0xC3, CHR 0xBC] @ ''r Ihre Aufmerksamkeit!'')])]"

definition output_file :: string where
  "output_file = ''Data_Mining_Betrugserkennung_Praesentation.pptx''"

text \<open>The nine \<open>print\<close> calls after the save, one string for each call.\<close>

definition report :: "presentation \<Rightarrow> string list" where
  "report prs =
     [[CHR 0xE2, CHR 0x9C, CHR 0x93] @ '' Pr'' @ [CHR 0xC3, CHR 0xA4] @ ''sentation erfolgreich erstellt: ''
        @ output_file,
      [CHR 0xE2, CHR 0x9C, CHR 0x93] @ '' Anzahl Folien: '' @ str_nat (length (slides prs)),
      [CHR 0x0A] @ ''Struktur nach CRISP-DM:'',
      ''  1. Einf'' @ [CHR 0xC3, CHR 0xBC] @ ''hrung und Problemstellung'',
      ''  2. Data Understanding (Class Imbalance)'',
      ''  3. Data Preparation (Feature Engineering)'',
      ''  4. Modeling (3 Klassifikationsverfahren)'',
      ''  5. Evaluation (Konfusionsmatrix, Metriken)'',
      ''  6. Deployment (Vorhersage)'']"

text \<open>
  The script with its sequence of calls as a parameter. \<open>build\<close> is \<open>main\<close> up to
  the last helper call: the presentation is made and sized, and the calls are run.
  \<open>run_script\<close> then saves the presentation and prints the report; its result is the
  world after the run and what was printed.
\<close>

definition build :: "call list \<Rightarrow> error + presentation" where
  "build calls =
     run_calls (Presentation\<lparr>slide_width := Inches 10, slide_height := Inches (75 / 10)\<rparr>) calls"

definition run_script :: "call list \<Rightarrow> world \<Rightarrow> error + (world \<times> string list)" where
  "run_script calls w =
     (case build calls of
        Inl e \<Rightarrow> Inl e
      | Inr prs \<Rightarrow>
          (case save prs output_file w of
             Inl e \<Rightarrow> Inl e
           | Inr w' \<Rightarrow> Inr (w', report prs)))"

definition main :: "world \<Rightarrow> error + (world \<times> string list)" where
  "main w = run_script main_calls w"

text \<open>What a run printed, when it came to its end.\<close>

definition printed :: "error + (world \<times> string list) \<Rightarrow> string list option" where
  "printed r = (case r of Inl e \<Rightarrow> None | Inr (w, out) \<Rightarrow> Some out)"

text \<open>
  Three worlds to run the script in: one with no file where every path can be written,
  a later one where the output file of an earlier run is there, and one where no path
  can be written.
\<close>

definition open_world :: world where
  "open_world = \<lparr>clock = 0, writable = (\<lambda>path. True), files = (\<lambda>path. None)\<rparr>"

definition later_world :: world where
  "later_world =
     \<lparr>clock = 1, writable = (\<lambda>path. True),
      files = (\<lambda>path. if path = output_file
                 then Some \<lparr>written_at = 0, content = Presentation\<rparr> else None)\<rparr>"

definition locked_world :: world where
  "locked_world = \<lparr>clock = 0, writable = (\<lambda>path. False), files = (\<lambda>path. None)\<rparr>"

subsection \<open>What is read off a slide\<close>

text \<open>
  The texts of the title placeholder, the texts of a whole slide (placeholders, then
  table cells, row by row), and the title a call passes.
\<close>

definition slide_title :: "slide \<Rightarrow> string list" where
  "slide_title sl = (case map_of (placeholders sl) 0 of None \<Rightarrow> [] | Some tf \<Rightarrow> frame_texts tf)"

definition table_texts :: "table \<Rightarrow> string list" where
  "table_texts tb = concat (map (\<lambda>r. concat (map (\<lambda>c. frame_texts (cell_frame c)) (cells r))) (rows tb))"

definition slide_texts :: "slide \<Rightarrow> string list" where
  "slide_texts sl =
     concat (map (\<lambda>ph. frame_texts (snd ph)) (placeholders sl)) @ concat (map table_texts (tables sl))"

fun call_title :: "call \<Rightarrow> string" where
  "call_title (TitleCall title subtitle) = title"
| "call_title (ContentCall title bullet_points) = title"
| "call_title (TableCall title data col_widths) = title"

text \<open>
  A header cell has a solid fill and every run bold; a data cell has no fill of its own
  and no run set to bold. A table has a distinguished header when the cells of row 0
  are header cells and the cells of every other row are data cells.
\<close>

definition is_solid :: "fill_format \<Rightarrow> bool" where
  "is_solid f = (case f of FillNone \<Rightarrow> False | Solid col \<Rightarrow> True)"

definition header_cell :: "cell \<Rightarrow> bool" where
  "header_cell c =
     (is_solid (fill c)
      \<and> list_all (\<lambda>p. list_all (\<lambda>r. font_bold (run_font r) = Some True) (runs p)) (cell_frame c))"

definition data_cell :: "cell \<Rightarrow> bool" where
  "data_cell c =
     (fill c = FillNone
      \<and> list_all (\<lambda>p. list_all (\<lambda>r. font_bold (run_font r) \<noteq> Some True) (runs p)) (cell_frame c))"

definition header_distinguished :: "table \<Rightarrow> bool" where
  "header_distinguished tb =
     (case rows tb of
        [] \<Rightarrow> False
      | h # ds \<Rightarrow> list_all header_cell (cells h) \<and> list_all (\<lambda>r. list_all data_cell (cells r)) ds)"


subsection \<open>When a call succeeds, and the slide it makes\<close>

text \<open>
  The conditions on the arguments: an indent level is one the library accepts; the rows
  of a table fit its first row, and so do the column widths; the first row gives the
  table at least one column.
\<close>

definition level_ok :: "int \<times> string \<Rightarrow> bool" where
  "level_ok b = (0 \<le> fst b \<and> fst b \<le> 8)"

definition widths :: "rat list option \<Rightarrow> rat list" where
  "widths col_widths = (case col_widths of None \<Rightarrow> [] | Some ws \<Rightarrow> ws)"

definition rows_fit :: "string list list \<Rightarrow> bool" where
  "rows_fit data = list_all (\<lambda>row. length row \<le> length (hd data)) data"

definition widths_fit :: "string list list \<Rightarrow> rat list option \<Rightarrow> bool" where
  "widths_fit data col_widths = (length (widths col_widths) \<le> length (hd data))"

definition table_pre :: "string list list \<Rightarrow> rat list option \<Rightarrow> bool" where
  "table_pre data col_widths =
     (data \<noteq> [] \<and> hd data \<noteq> [] \<and> rows_fit data \<and> widths_fit data col_widths)"

text \<open>The error of \<open>create_table_slide\<close> when \<open>table_pre\<close> fails.\<close>

definition table_error :: "string list list \<Rightarrow> error" where
  "table_error data = (if data \<noteq> [] \<and> hd data = [] then ZeroDivisionError else IndexError)"

text \<open>The paragraph of a bullet, the cell written in row \<open>i\<close>, the rows and the table as filled.\<close>

definition bullet_paragraph :: "int \<times> string \<Rightarrow> text_paragraph" where
  "bullet_paragraph b = \<lparr>runs = text_runs (snd b), level = nat (fst b)\<rparr>"

definition written_cell :: "nat \<Rightarrow> string \<Rightarrow> cell" where
  "written_cell i cell_text =
     (if i = 0
      then \<lparr>cell_frame = map_runs header_run (set_frame_text cell_text []),
            fill = Solid (Some (RGBColor 68 114 196))\<rparr>
      else \<lparr>cell_frame = map_runs data_run (set_frame_text cell_text []), fill = FillNone\<rparr>)"

definition filled_row :: "nat \<Rightarrow> nat \<Rightarrow> string list \<Rightarrow> table_row" where
  "filled_row i n_cols row =
     \<lparr>cells = map (written_cell i) row @ replicate (n_cols - length row) new_cell\<rparr>"

fun filled_rows :: "nat \<Rightarrow> nat \<Rightarrow> string list list \<Rightarrow> table_row list" where
  "filled_rows i n_cols [] = []"
| "filled_rows i n_cols (row # data) = filled_row i n_cols row # filled_rows (Suc i) n_cols data"

definition made_table :: "string list list \<Rightarrow> rat list \<Rightarrow> table" where
  "made_table data ws =
     \<lparr>frame_left = Inches 1, frame_top = Inches 2, frame_width = Inches 8,
      frame_height = Inches (8 / 10 * of_nat (length data)),
      columns = map (\<lambda>w. Some (Inches w)) ws @ replicate (length (hd data) - length ws) None,
      rows = filled_rows 0 (length (hd data)) data\<rparr>"

fun call_ok :: "call \<Rightarrow> bool" where
  "call_ok (TitleCall title subtitle) = True"
| "call_ok (ContentCall title bullet_points) =
     (case bullet_points of None \<Rightarrow> True | Some bps \<Rightarrow> list_all level_ok bps)"
| "call_ok (TableCall title data col_widths) = table_pre data col_widths"

fun call_slide :: "call \<Rightarrow> slide" where
  "call_slide (TitleCall title subtitle) =
     \<lparr>layout = 0,
      placeholders = [(0, set_frame_text title []), (1, set_frame_text subtitle [])],
      tables = []\<rparr>"
| "call_slide (ContentCall title bullet_points) =
     \<lparr>layout = 1,
      placeholders =
        [(0, set_frame_text title []),
         (1, case bullet_points of
               None \<Rightarrow> new_text_frame
             | Some bps \<Rightarrow> if bps = [] then new_text_frame else map bullet_paragraph bps)],
      tables = []\<rparr>"
| "call_slide (TableCall title data col_widths) =
     \<lparr>layout = 5,
      placeholders = [(0, set_frame_text title [])],
      tables = [made_table data (widths col_widths)]\<rparr>"

section \<open>The helpers, call by call\<close>

text \<open>
  Each helper is characterised in full: when it succeeds, the slide it appends, and
  the error it raises otherwise.
\<close>

lemma update_slide_last:
  "update_slide (length xs) f (prs\<lparr>slides := xs @ [s]\<rparr>) =
     (case f s of Inl e \<Rightarrow> Inl e | Inr s' \<Rightarrow> Inr (prs\<lparr>slides := xs @ [s']\<rparr>))"
  by (simp add: update_slide_def split: sum.splits)

lemma add_slide_eq:
  "k < 11 \<Longrightarrow> add_slide prs k = Inr (length (slides prs), prs\<lparr>slides := slides prs @ [new_slide k]\<rparr>)"
  by (simp add: add_slide_def slide_layouts_def)

lemma new_slide_0: "new_slide 0 = \<lparr>layout = 0, placeholders = [(0, new_text_frame), (1, new_text_frame)], tables = []\<rparr>"
  by (simp add: new_slide_def slide_layouts_def)

lemma new_slide_1: "new_slide (Suc 0) = \<lparr>layout = 1, placeholders = [(0, new_text_frame), (1, new_text_frame)], tables = []\<rparr>"
  by (simp add: new_slide_def slide_layouts_def)

lemma new_slide_5: "new_slide 5 = \<lparr>layout = 5, placeholders = [(0, new_text_frame)], tables = []\<rparr>"
  by (simp add: new_slide_def slide_layouts_def)

lemma create_title_slide_eq:
  "create_title_slide prs title subtitle =
     Inr (length (slides prs),
          prs\<lparr>slides := slides prs @
            [\<lparr>layout = 0,
              placeholders = [(0, set_frame_text title []), (1, set_frame_text subtitle [])],
              tables = []\<rparr>]\<rparr>)"
  by (simp add: create_title_slide_def add_slide_eq update_slide_last new_slide_0
      set_title_text_def set_placeholder_text_def placeholder_def set_frame_text_def)

lemma fill_paragraphs_Suc:
  "list_all level_ok bps \<Longrightarrow>
   fill_paragraphs (Suc i) bps tf = Inr (tf @ map bullet_paragraph bps)"
  by (induction bps arbitrary: i tf)
     (auto simp: level_ok_def bullet_paragraph_def set_paragraph_level_def
        set_paragraph_text_def empty_paragraph_def add_paragraph_def)

lemma fill_paragraphs_0:
  "list_all level_ok bps \<Longrightarrow> bps \<noteq> [] \<Longrightarrow>
   fill_paragraphs 0 bps [p] = Inr (map bullet_paragraph bps)"
  by (cases bps)
     (auto simp: fill_paragraphs_Suc level_ok_def bullet_paragraph_def set_paragraph_level_def
        set_paragraph_text_def)

lemma fill_paragraphs_ValueError:
  "\<not> list_all level_ok bps \<Longrightarrow> tf \<noteq> [] \<Longrightarrow> fill_paragraphs i bps tf = Inl ValueError"
  by (induction bps arbitrary: i tf)
     (auto simp: level_ok_def set_paragraph_level_def add_paragraph_def Let_def
        split: list.splits sum.splits)

lemma create_content_slide_eq:
  "create_content_slide prs title bullet_points =
     (case bullet_points of
        None \<Rightarrow> Inr (length (slides prs), prs\<lparr>slides := slides prs @
            [\<lparr>layout = 1, placeholders = [(0, set_frame_text title []), (1, new_text_frame)], tables = []\<rparr>]\<rparr>)
      | Some bps \<Rightarrow>
          if bps = [] then Inr (length (slides prs), prs\<lparr>slides := slides prs @
            [\<lparr>layout = 1, placeholders = [(0, set_frame_text title []), (1, new_text_frame)], tables = []\<rparr>]\<rparr>)
          else if list_all level_ok bps then Inr (length (slides prs), prs\<lparr>slides := slides prs @
            [\<lparr>layout = 1, placeholders = [(0, set_frame_text title []), (1, map bullet_paragraph bps)], tables = []\<rparr>]\<rparr>)
          else Inl ValueError)"
  by (cases bullet_points; (cases "the bullet_points")?)
     (simp_all add: create_content_slide_def add_slide_eq update_slide_last new_slide_1
      set_title_text_def set_bullets_def placeholder_def set_frame_text_def clear_def
      new_text_frame_def fill_paragraphs_0 fill_paragraphs_ValueError del: fill_paragraphs.simps)


lemma write_cell_new: "write_cell i cell_text new_cell = Inr (written_cell i cell_text)"
  by (simp add: write_cell_def written_cell_def new_cell_def solid_def set_fore_color_def
      set_frame_text_def)

lemma table_row_update: "(r::table_row)\<lparr>cells := cs\<rparr> = \<lparr>cells = cs\<rparr>"
  by (cases r) simp

lemma fill_row_new:
  "i < length (rows tb) \<Longrightarrow>
   cells (rows tb ! i) = pre @ replicate (length row + m) new_cell \<Longrightarrow>
   fill_row i (length pre) row tb =
     Inr (tb\<lparr>rows := (rows tb)[i := \<lparr>cells = pre @ map (written_cell i) row @ replicate m new_cell\<rparr>]\<rparr>)"
proof (induction row arbitrary: pre tb)
  case Nil
  then show ?case
    by (simp add: list_update_same_conv[THEN iffD2])
next
  case (Cons t row)
  let ?tb = "tb\<lparr>rows := (rows tb)[i := \<lparr>cells = (pre @ [written_cell i t]) @ replicate (length row + m) new_cell\<rparr>]\<rparr>"
  have step: "set_cell i (length pre) t tb = Inr ?tb"
    using Cons.prems by (simp add: set_cell_def nth_append write_cell_new list_update_append table_row_update)
  have "fill_row i (length (pre @ [written_cell i t])) row ?tb =
     Inr (?tb\<lparr>rows := (rows ?tb)[i := \<lparr>cells = (pre @ [written_cell i t]) @ map (written_cell i) row @ replicate m new_cell\<rparr>]\<rparr>)"
    using Cons.prems by (intro Cons.IH) simp_all
  then show ?case
    using step by simp
qed

lemma fill_table_new:
  "rows tb = rs @ replicate (length data) \<lparr>cells = replicate n_cols new_cell\<rparr> \<Longrightarrow>
   list_all (\<lambda>row. length row \<le> n_cols) data \<Longrightarrow>
   fill_table (length rs) data tb = Inr (tb\<lparr>rows := rs @ filled_rows (length rs) n_cols data\<rparr>)"
proof (induction data arbitrary: rs tb)
  case Nil
  then show ?case by simp
next
  case (Cons row data)
  let ?tb = "tb\<lparr>rows := (rs @ [filled_row (length rs) n_cols row]) @ replicate (length data) \<lparr>cells = replicate n_cols new_cell\<rparr>\<rparr>"
  have len: "length row \<le> n_cols"
    using Cons.prems by simp
  have "fill_row (length rs) (length ([]::cell list)) row tb =
     Inr (tb\<lparr>rows := (rows tb)[length rs := \<lparr>cells = [] @ map (written_cell (length rs)) row @ replicate (n_cols - length row) new_cell\<rparr>]\<rparr>)"
    using Cons.prems len
    by (intro fill_row_new) (simp_all add: nth_append replicate_add[symmetric])
  then have step: "fill_row (length rs) 0 row tb = Inr ?tb"
    using Cons.prems by (simp add: filled_row_def list_update_append)
  have "fill_table (length (rs @ [filled_row (length rs) n_cols row])) data ?tb =
     Inr (?tb\<lparr>rows := (rs @ [filled_row (length rs) n_cols row]) @ filled_rows (length (rs @ [filled_row (length rs) n_cols row])) n_cols data\<rparr>)"
    using Cons.prems by (intro Cons.IH) simp_all
  then show ?case
    using step by simp
qed

lemma set_col_widths_ok:
  "i + length ws \<le> length (columns tb) \<Longrightarrow>
   set_col_widths i ws tb =
     Inr (tb\<lparr>columns := take i (columns tb) @ map (\<lambda>w. Some (Inches w)) ws @ drop (i + length ws) (columns tb)\<rparr>)"
proof (induction ws arbitrary: i tb)
  case Nil
  then show ?case by simp
next
  case (Cons w ws)
  then show ?case
    by (simp add: take_Suc_conv_app_nth upd_conv_take_nth_drop add.commute)
qed


lemma set_table_ok:
  assumes "table_pre data col_widths"
  shows "set_table data col_widths sl =
     Inr (sl\<lparr>tables := tables sl @ [made_table data (widths col_widths)]\<rparr>)"
proof -
  obtain row0 rest where data: "data = row0 # rest"
    using assms by (cases data) (auto simp: table_pre_def rows_fit_def widths_fit_def)
  let ?n = "length row0"
  let ?ws = "widths col_widths"
  let ?tb = "\<lparr>frame_left = Inches 1, frame_top = Inches 2, frame_width = Inches 8,
      frame_height = Inches (8 / 10 * of_nat (length data)),
      columns = replicate ?n None,
      rows = replicate (length data) \<lparr>cells = replicate ?n new_cell\<rparr>\<rparr>"
  let ?tb1 = "?tb\<lparr>columns := map (\<lambda>w. Some (Inches w)) ?ws @ replicate (?n - length ?ws) None\<rparr>"
  from assms data have pre: "row0 \<noteq> []" "length ?ws \<le> ?n"
    "list_all (\<lambda>row. length row \<le> ?n) data"
    by (simp_all add: table_pre_def rows_fit_def widths_fit_def)
  have a: "add_table (length data) ?n (Inches 1) (Inches 2) (Inches 8)
      (Inches (8 / 10 * of_nat (length data))) = Inr ?tb"
    using pre data by (simp add: add_table_def)
  have "set_col_widths 0 ?ws ?tb =
     Inr (?tb\<lparr>columns := take 0 (columns ?tb) @ map (\<lambda>w. Some (Inches w)) ?ws @ drop (0 + length ?ws) (columns ?tb)\<rparr>)"
    using pre by (intro set_col_widths_ok) simp
  then have b: "set_col_widths 0 ?ws ?tb = Inr ?tb1"
    by simp
  have "fill_table (length ([]::table_row list)) data ?tb1 =
     Inr (?tb1\<lparr>rows := [] @ filled_rows (length ([]::table_row list)) ?n data\<rparr>)"
    using pre by (intro fill_table_new) simp_all
  then have c: "fill_table 0 data ?tb1 = Inr (made_table data ?ws)"
    using data by (simp add: made_table_def)
  show ?thesis
    using a b c data unfolding set_table_def widths_def[symmetric]
    by (simp del: fill_table.simps set_col_widths.simps)
qed

lemma create_table_slide_ok:
  "table_pre data col_widths \<Longrightarrow>
   create_table_slide prs title data col_widths =
     Inr (length (slides prs), prs\<lparr>slides := slides prs @ [call_slide (TableCall title data col_widths)]\<rparr>)"
  by (simp add: create_table_slide_def add_slide_eq update_slide_last new_slide_5
      set_title_text_def set_frame_text_def set_table_ok)

lemma exec_call_ok:
  "call_ok c \<Longrightarrow> exec_call prs c = Inr (prs\<lparr>slides := slides prs @ [call_slide c]\<rparr>)"
  by (cases c)
     (auto simp: exec_call_def create_title_slide_eq create_content_slide_eq
        create_table_slide_ok split: option.splits)

lemma run_calls_ok:
  "list_all call_ok cs \<Longrightarrow> run_calls prs cs = Inr (prs\<lparr>slides := slides prs @ map call_slide cs\<rparr>)"
  by (induction cs arbitrary: prs) (simp_all add: exec_call_ok)

lemma main_calls_ok: "list_all call_ok main_calls"
  by (simp add: main_calls_def level_ok_def table_pre_def rows_fit_def widths_fit_def widths_def)

lemma length_main_calls: "length main_calls = 15"
  by (simp add: main_calls_def)


lemma fill_row_too_long:
  "i < length (rows tb) \<Longrightarrow>
   cells (rows tb ! i) = pre @ replicate m new_cell \<Longrightarrow> m < length row \<Longrightarrow>
   fill_row i (length pre) row tb = Inl IndexError"
proof (induction row arbitrary: pre m tb)
  case Nil
  then show ?case by simp
next
  case (Cons t row)
  show ?case
  proof (cases m)
    case 0
    then show ?thesis
      using Cons.prems by (simp add: set_cell_def)
  next
    case (Suc m')
    let ?tb = "tb\<lparr>rows := (rows tb)[i := \<lparr>cells = (pre @ [written_cell i t]) @ replicate m' new_cell\<rparr>]\<rparr>"
    have step: "set_cell i (length pre) t tb = Inr ?tb"
      using Cons.prems Suc
      by (simp add: set_cell_def nth_append write_cell_new list_update_append table_row_update)
    have "fill_row i (length (pre @ [written_cell i t])) row ?tb = Inl IndexError"
      using Cons.prems Suc by (intro Cons.IH[where m = m']) simp_all
    then show ?thesis
      using step by simp
  qed
qed

lemma fill_table_too_long:
  "rows tb = rs @ replicate (length data) \<lparr>cells = replicate n_cols new_cell\<rparr> \<Longrightarrow>
   \<not> list_all (\<lambda>row. length row \<le> n_cols) data \<Longrightarrow>
   fill_table (length rs) data tb = Inl IndexError"
proof (induction data arbitrary: rs tb)
  case Nil
  then show ?case by simp
next
  case (Cons row data)
  show ?case
  proof (cases "length row \<le> n_cols")
    case True
    let ?tb = "tb\<lparr>rows := (rs @ [filled_row (length rs) n_cols row]) @ replicate (length data) \<lparr>cells = replicate n_cols new_cell\<rparr>\<rparr>"
    have "fill_row (length rs) (length ([]::cell list)) row tb =
       Inr (tb\<lparr>rows := (rows tb)[length rs := \<lparr>cells = [] @ map (written_cell (length rs)) row @ replicate (n_cols - length row) new_cell\<rparr>]\<rparr>)"
      using Cons.prems True
      by (intro fill_row_new) (simp_all add: nth_append replicate_add[symmetric])
    then have step: "fill_row (length rs) 0 row tb = Inr ?tb"
      using Cons.prems by (simp add: filled_row_def list_update_append)
    have "fill_table (length (rs @ [filled_row (length rs) n_cols row])) data ?tb = Inl IndexError"
      using Cons.prems True by (intro Cons.IH) simp_all
    then show ?thesis
      using step by simp
  next
    case False
    have "fill_row (length rs) (length ([]::cell list)) row tb = Inl IndexError"
      using Cons.prems False
      by (intro fill_row_too_long[where m = n_cols]) (simp_all add: nth_append)
    then show ?thesis
      by simp
  qed
qed

lemma set_col_widths_too_long:
  "i \<le> length (columns tb) \<Longrightarrow> length (columns tb) < i + length ws \<Longrightarrow>
   set_col_widths i ws tb = Inl IndexError"
  by (induction ws arbitrary: i tb) auto

lemma set_table_fails:
  assumes "\<not> table_pre data col_widths"
  shows "set_table data col_widths sl = Inl (table_error data)"
proof (cases data)
  case Nil
  then show ?thesis
    by (simp add: set_table_def table_error_def)
next
  case (Cons row0 rest)
  let ?n = "length row0"
  let ?ws = "widths col_widths"
  let ?tb = "\<lparr>frame_left = Inches 1, frame_top = Inches 2, frame_width = Inches 8,
      frame_height = Inches (8 / 10 * of_nat (length data)),
      columns = replicate ?n None,
      rows = replicate (length data) \<lparr>cells = replicate ?n new_cell\<rparr>\<rparr>"
  show ?thesis
  proof (cases "row0 = []")
    case True
    then show ?thesis
      using Cons by (simp add: set_table_def table_error_def add_table_def)
  next
    case False
    have a: "add_table (length data) ?n (Inches 1) (Inches 2) (Inches 8)
        (Inches (8 / 10 * of_nat (length data))) = Inr ?tb"
      using False Cons by (simp add: add_table_def)
    show ?thesis
    proof (cases "length ?ws \<le> ?n")
      case wfit: True
      let ?tb1 = "?tb\<lparr>columns := map (\<lambda>w. Some (Inches w)) ?ws @ replicate (?n - length ?ws) None\<rparr>"
      have "set_col_widths 0 ?ws ?tb =
         Inr (?tb\<lparr>columns := take 0 (columns ?tb) @ map (\<lambda>w. Some (Inches w)) ?ws @ drop (0 + length ?ws) (columns ?tb)\<rparr>)"
        using wfit by (intro set_col_widths_ok) simp
      then have b: "set_col_widths 0 ?ws ?tb = Inr ?tb1"
        by simp
      have bad: "\<not> list_all (\<lambda>row. length row \<le> ?n) data"
        using assms wfit False Cons by (simp add: table_pre_def rows_fit_def widths_fit_def)
      have "fill_table (length ([]::table_row list)) data ?tb1 = Inl IndexError"
        using bad by (intro fill_table_too_long[where n_cols = ?n]) simp_all
      then have c: "fill_table 0 data ?tb1 = Inl IndexError"
        by simp
      show ?thesis
        using a b c Cons False unfolding set_table_def widths_def[symmetric]
        by (simp add: table_error_def del: fill_table.simps set_col_widths.simps)
    next
      case wlong: False
      have b: "set_col_widths 0 ?ws ?tb = Inl IndexError"
        using wlong by (intro set_col_widths_too_long) simp_all
      show ?thesis
        using a b Cons False unfolding set_table_def widths_def[symmetric]
        by (simp add: table_error_def del: fill_table.simps set_col_widths.simps)
    qed
  qed
qed

lemma create_table_slide_eq:
  "create_table_slide prs title data col_widths =
     (if table_pre data col_widths
      then Inr (length (slides prs),
                prs\<lparr>slides := slides prs @ [call_slide (TableCall title data col_widths)]\<rparr>)
      else Inl (table_error data))"
  by (simp add: create_table_slide_def add_slide_eq update_slide_last new_slide_5
      set_title_text_def set_frame_text_def set_table_ok set_table_fails)



lemma build_main_calls:
  "build main_calls =
     Inr \<lparr>slide_width = Inches 10, slide_height = Inches (75 / 10),
          slides = map call_slide main_calls\<rparr>"
  by (simp add: build_def run_calls_ok main_calls_ok Presentation_def)

lemma str_nat_15: "str_nat 15 = ''15''"
  by code_simp

lemma main_eq:
  "main w =
     (if writable w output_file
      then Inr (w\<lparr>files := (files w)(output_file \<mapsto>
                  \<lparr>written_at = clock w,
                   content = \<lparr>slide_width = Inches 10, slide_height = Inches (75 / 10),
                              slides = map call_slide main_calls\<rparr>\<rparr>)\<rparr>,
                report \<lparr>slide_width = Inches 10, slide_height = Inches (75 / 10),
                        slides = map call_slide main_calls\<rparr>)
      else Inl OSError)"
  by (simp add: main_def run_script_def build_main_calls save_def)

lemma paragraph_text_runs: "paragraph_text \<lparr>runs = text_runs s, level = l\<rparr> = s"
  by (simp add: paragraph_text_def text_runs_def new_run_def)

lemma slide_title_call_slide: "slide_title (call_slide c) = [call_title c]"
  by (cases c) (simp_all add: slide_title_def frame_texts_def set_frame_text_def paragraph_text_runs)

lemma header_cell_written: "header_cell (written_cell 0 s)"
  by (simp add: header_cell_def written_cell_def is_solid_def map_runs_def set_frame_text_def
      text_runs_def header_run_def)

lemma data_cell_written: "0 < i \<Longrightarrow> data_cell (written_cell i s)"
  by (simp add: data_cell_def written_cell_def map_runs_def set_frame_text_def
      text_runs_def data_run_def new_run_def new_font_def)

lemma data_cell_new: "data_cell new_cell"
  by (simp add: data_cell_def new_cell_def new_text_frame_def empty_paragraph_def)

lemma data_rows_filled:
  "0 < i \<Longrightarrow> list_all (\<lambda>r. list_all data_cell (cells r)) (filled_rows i n_cols data)"
  by (induction data arbitrary: i)
     (auto simp: filled_row_def list_all_iff data_cell_written data_cell_new)

lemma header_row_filled: "list_all header_cell (map (written_cell 0) row)"
  by (simp add: list_all_iff header_cell_written)

lemma header_distinguished_made:
  "table_pre data col_widths \<Longrightarrow> header_distinguished (made_table data (widths col_widths))"
  by (cases data)
     (simp_all add: table_pre_def header_distinguished_def made_table_def filled_row_def
        header_row_filled data_rows_filled)

lemma tables_call_slide:
  "call_ok c \<Longrightarrow> list_all header_distinguished (tables (call_slide c))"
  by (cases c) (simp_all add: header_distinguished_made)

section \<open>The claims\<close>

text \<open>
  C1. A run of the script whose destination can be written ends with a file at the
  output path that holds exactly as many slides as \<open>main\<close> makes helper calls; that
  number is 15.
\<close>

theorem main_slide_count:
  "writable w output_file \<Longrightarrow>
   \<exists>w' out f. main w = Inr (w', out) \<and> files w' output_file = Some f
     \<and> length (slides (content f)) = length main_calls \<and> length main_calls = 15"
  by (simp add: main_eq length_main_calls)

theorem main_slide_count_witness:
  "\<exists>w' out f. main open_world = Inr (w', out) \<and> files w' output_file = Some f
     \<and> length (slides (content f)) = 15"
proof -
  have "writable open_world output_file"
    by (simp add: open_world_def)
  from main_slide_count[OF this] show ?thesis
    by auto
qed

text \<open>
  C2. Every slide \<open>create_table_slide\<close> returns has one table whose row 0 is a header
  row (every cell with a solid fill and every run bold) and whose other rows have no
  cell with a fill of its own and no run set to bold. The deck of \<open>main\<close> has its two
  tables on slides 8 and 12, and both are so.
\<close>

theorem table_header_distinguished:
  "(create_table_slide prs title data col_widths = Inr (sl, prs') \<longrightarrow>
      (\<exists>tb. tables (slides prs' ! sl) = [tb] \<and> header_distinguished tb))
   \<and> (\<exists>p. build main_calls = Inr p
          \<and> map (\<lambda>s. length (tables s)) (slides p) = [0, 0, 0, 0, 0, 0, 0, 1, 0, 0, 0, 1, 0, 0, 0]
          \<and> list_all (\<lambda>s. list_all header_distinguished (tables s)) (slides p))"
proof -
  have one: "create_table_slide prs title data col_widths = Inr (sl, prs') \<longrightarrow>
      (\<exists>tb. tables (slides prs' ! sl) = [tb] \<and> header_distinguished tb)"
    by (auto simp: create_table_slide_eq header_distinguished_made split: if_splits)
  have counts: "map (\<lambda>s. length (tables s)) (map call_slide main_calls) =
      [0, 0, 0, 0, 0, 0, 0, 1, 0, 0, 0, 1, 0, 0, 0]"
    by (simp add: main_calls_def)
  have "\<forall>c \<in> set main_calls. call_ok c"
    using main_calls_ok by (simp add: list_all_iff)
  then have "\<forall>c \<in> set main_calls. list_all header_distinguished (tables (call_slide c))"
    by (blast intro: tables_call_slide)
  then have all: "list_all (\<lambda>s. list_all header_distinguished (tables s)) (map call_slide main_calls)"
    by (simp add: list_all_iff)
  show ?thesis
    using one counts all by (simp add: build_main_calls)
qed

theorem table_header_distinguished_witness:
  "\<exists>sl prs' tb. create_table_slide Presentation ''T'' [[''a'', ''b''], [''c'']] None = Inr (sl, prs')
     \<and> tables (slides prs' ! sl) = [tb] \<and> header_distinguished tb"
proof -
  have "table_pre [[''a'', ''b''], [''c'']] None"
    by (simp add: table_pre_def rows_fit_def widths_fit_def widths_def)
  then obtain sl prs' where made:
    "create_table_slide Presentation ''T'' [[''a'', ''b''], [''c'']] None = Inr (sl, prs')"
    by (simp add: create_table_slide_eq)
  from table_header_distinguished[THEN conjunct1, rule_format, OF made] made show ?thesis
    by blast
qed

text \<open>
  C3, as the script has it. The claim of exactly two printed lines fails: a run that
  saves its file makes nine \<open>print\<close> calls.
\<close>

theorem two_lines_counterexample:
  "map_option length (printed (main open_world)) = Some 9"
  by (simp add: main_eq printed_def report_def open_world_def)

text \<open>
  C3, amended. A run that saves its file prints the two summary lines first (the output
  file name, then the slide count 15) and then a fixed outline: an empty line with the
  heading, and six numbered lines. A run that cannot save prints nothing.
\<close>

theorem main_printed:
  "printed (main w) =
     (if writable w output_file
      then Some
        [[CHR 0xE2, CHR 0x9C, CHR 0x93] @ '' Pr'' @ [CHR 0xC3, CHR 0xA4] @ ''sentation erfolgreich erstellt: ''
           @ ''Data_Mining_Betrugserkennung_Praesentation.pptx'',
         [CHR 0xE2, CHR 0x9C, CHR 0x93] @ '' Anzahl Folien: 15'',
         [CHR 0x0A] @ ''Struktur nach CRISP-DM:'',
         ''  1. Einf'' @ [CHR 0xC3, CHR 0xBC] @ ''hrung und Problemstellung'',
         ''  2. Data Understanding (Class Imbalance)'',
         ''  3. Data Preparation (Feature Engineering)'',
         ''  4. Modeling (3 Klassifikationsverfahren)'',
         ''  5. Evaluation (Konfusionsmatrix, Metriken)'',
         ''  6. Deployment (Vorhersage)'']
      else None)"
  by (simp add: main_eq printed_def report_def output_file_def length_main_calls str_nat_15)

theorem main_printed_witness:
  "map_option (take 2) (printed (main later_world)) =
     Some [[CHR 0xE2, CHR 0x9C, CHR 0x93] @ '' Pr'' @ [CHR 0xC3, CHR 0xA4] @ ''sentation erfolgreich erstellt: ''
             @ ''Data_Mining_Betrugserkennung_Praesentation.pptx'',
           [CHR 0xE2, CHR 0x9C, CHR 0x93] @ '' Anzahl Folien: 15'']
   \<and> printed (main locked_world) = None"
  using main_printed[of later_world] main_printed[of locked_world]
  by (simp add: later_world_def locked_world_def)

text \<open>
  C4. Any two runs that end leave files with the same number of slides and the same
  texts on every slide, and print the same; each file carries the time of its own run.
\<close>

theorem rerun_same_content:
  "main w1 = Inr (w1', out1) \<Longrightarrow> main w2 = Inr (w2', out2) \<Longrightarrow>
   \<exists>f1 f2. files w1' output_file = Some f1 \<and> files w2' output_file = Some f2
     \<and> length (slides (content f1)) = length (slides (content f2))
     \<and> map slide_texts (slides (content f1)) = map slide_texts (slides (content f2))
     \<and> out1 = out2 \<and> written_at f1 = clock w1 \<and> written_at f2 = clock w2"
  by (auto simp: main_eq split: if_splits)

theorem rerun_same_content_witness:
  "\<exists>w1' out1 w2' out2 f1 f2.
     main open_world = Inr (w1', out1) \<and> main later_world = Inr (w2', out2)
     \<and> files w1' output_file = Some f1 \<and> files w2' output_file = Some f2
     \<and> map slide_texts (slides (content f1)) = map slide_texts (slides (content f2))
     \<and> written_at f1 = 0 \<and> written_at f2 = 1"
proof -
  obtain w1' out1 where r1: "main open_world = Inr (w1', out1)"
    by (simp add: main_eq open_world_def)
  obtain w2' out2 where r2: "main later_world = Inr (w2', out2)"
    by (simp add: main_eq later_world_def)
  from rerun_same_content[OF r1 r2] r1 r2 show ?thesis
    by (auto simp: open_world_def later_world_def)
qed



text \<open>
  C6. The saved presentation has the slides in the order of the calls of \<open>main\<close>:
  slide \<open>k\<close> carries the title of call \<open>k\<close>, the first slide is made from the title
  layout, the 8th and the 12th from the title-only layout and hold the two tables, and
  all others from the content layout.
\<close>

theorem main_slide_order:
  "writable w output_file \<Longrightarrow>
   \<exists>w' out f. main w = Inr (w', out) \<and> files w' output_file = Some f
     \<and> map slide_title (slides (content f)) = map (\<lambda>c. [call_title c]) main_calls
     \<and> map layout (slides (content f)) = [0, 1, 1, 1, 1, 1, 1, 5, 1, 1, 1, 5, 1, 1, 1]
     \<and> map (\<lambda>s. length (tables s)) (slides (content f)) = [0, 0, 0, 0, 0, 0, 0, 1, 0, 0, 0, 1, 0, 0, 0]
     \<and> map call_title main_calls =
       [''Data Mining: Betrugserkennung'',
        ''Agenda'',
        ''1. Einf'' @ [CHR 0xC3, CHR 0xBC] @ ''hrung und Problemstellung'',
        ''2. Datenanalyse (CRISP-DM: Data Understanding)'',
        ''3. Attributanalyse & Feature Engineering (Data Preparation)'',
        ''4. Modellauswahl und Training (CRISP-DM: Modeling)'',
        ''5. Modellbewertung (CRISP-DM: Evaluation)'',
        ''5a. Decision Tree - Confusion Matrix'',
        ''5a. Decision Tree - Metriken'',
        ''5b. Logistic Regression - Ergebnisse'',
        ''5c. Naive Bayes - Ergebnisse'',
        ''5d. Vergleichende Modellbewertung'',
        ''5e. Ma'' @ [CHR 0xC3, CHR 0x9F] @ ''nahmen zur Ergebnisverbesserung'',
        ''6. Vorhersage (CRISP-DM: Deployment)'',
        ''Zusammenfassung und Ausblick'']"
proof -
  assume wr: "writable w output_file"
  have titles: "map slide_title (map call_slide main_calls) = map (\<lambda>c. [call_title c]) main_calls"
    by (simp add: slide_title_call_slide)
  have layouts: "map layout (map call_slide main_calls) = [0, 1, 1, 1, 1, 1, 1, 5, 1, 1, 1, 5, 1, 1, 1]"
    by (simp add: main_calls_def)
  have counts: "map (\<lambda>s. length (tables s)) (map call_slide main_calls) =
      [0, 0, 0, 0, 0, 0, 0, 1, 0, 0, 0, 1, 0, 0, 0]"
    by (simp add: main_calls_def)
  have literal: "map call_title main_calls =
       [''Data Mining: Betrugserkennung'',
        ''Agenda'',
        ''1. Einf'' @ [CHR 0xC3, CHR 0xBC] @ ''hrung und Problemstellung'',
        ''2. Datenanalyse (CRISP-DM: Data Understanding)'',
        ''3. Attributanalyse & Feature Engineering (Data Preparation)'',
        ''4. Modellauswahl und Training (CRISP-DM: Modeling)'',
        ''5. Modellbewertung (CRISP-DM: Evaluation)'',
        ''5a. Decision Tree - Confusion Matrix'',
        ''5a. Decision Tree - Metriken'',
        ''5b. Logistic Regression - Ergebnisse'',
        ''5c. Naive Bayes - Ergebnisse'',
        ''5d. Vergleichende Modellbewertung'',
        ''5e. Ma'' @ [CHR 0xC3, CHR 0x9F] @ ''nahmen zur Ergebnisverbesserung'',
        ''6. Vorhersage (CRISP-DM: Deployment)'',
        ''Zusammenfassung und Ausblick'']"
    by (simp add: main_calls_def)
  show ?thesis
    using wr titles layouts counts literal by (simp add: main_eq)
qed

theorem main_slide_order_witness:
  "\<exists>w' out f. main open_world = Inr (w', out) \<and> files w' output_file = Some f
     \<and> map slide_title (slides (content f)) = map (\<lambda>c. [call_title c]) main_calls
     \<and> map layout (slides (content f)) = [0, 1, 1, 1, 1, 1, 1, 5, 1, 1, 1, 5, 1, 1, 1]
     \<and> map (\<lambda>s. length (tables s)) (slides (content f)) = [0, 0, 0, 0, 0, 0, 0, 1, 0, 0, 0, 1, 0, 0, 0]
     \<and> map call_title main_calls =
       [''Data Mining: Betrugserkennung'',
        ''Agenda'',
        ''1. Einf'' @ [CHR 0xC3, CHR 0xBC] @ ''hrung und Problemstellung'',
        ''2. Datenanalyse (CRISP-DM: Data Understanding)'',
        ''3. Attributanalyse & Feature Engineering (Data Preparation)'',
        ''4. Modellauswahl und Training (CRISP-DM: Modeling)'',
        ''5. Modellbewertung (CRISP-DM: Evaluation)'',
        ''5a. Decision Tree - Confusion Matrix'',
        ''5a. Decision Tree - Metriken'',
        ''5b. Logistic Regression - Ergebnisse'',
        ''5c. Naive Bayes - Ergebnisse'',
        ''5d. Vergleichende Modellbewertung'',
        ''5e. Ma'' @ [CHR 0xC3, CHR 0x9F] @ ''nahmen zur Ergebnisverbesserung'',
        ''6. Vorhersage (CRISP-DM: Deployment)'',
        ''Zusammenfassung und Ausblick'']"
proof -
  have "writable open_world output_file"
    by (simp add: open_world_def)
  from main_slide_order[OF this] show ?thesis .
qed











end
